theory Spec2Isabelle
  imports Main "HOL-Library.Word"
begin

section \<open>JavaScript values\<close>

text \<open>
  The ProductList block of \<^verbatim>\<open>src/index.js\<close> is a JavaScript class. Its strings are
  sequences of UTF-16 code units, and its configuration, its saved data and the body of
  a server response are untyped values. Numbers are modelled by their integer values
  only (status codes, JSON integers). \<open>Native\<close> stands for a built-in function object,
  named by where it lives.
\<close>

type_synonym jsstring = "16 word list"

definition js :: "string \<Rightarrow> jsstring" where
  "js s = map (\<lambda>c. of_nat (of_char c)) s"

datatype jsval =
    Undefined
  | Null
  | Bool bool
  | Num int
  | Str jsstring
  | Obj "(jsstring \<times> jsval) list"
  | Arr "jsval list"
  | Native string

datatype error = TypeError

text \<open>Truthiness, as used by \<^verbatim>\<open>||\<close>, \<^verbatim>\<open>!\<close> and \<^verbatim>\<open>if\<close>.\<close>

fun truthy :: "jsval \<Rightarrow> bool" where
  "truthy Undefined = False"
| "truthy Null = False"
| "truthy (Bool b) = b"
| "truthy (Num n) = (n \<noteq> 0)"
| "truthy (Str s) = (s \<noteq> [])"
| "truthy (Obj ps) = True"
| "truthy (Arr vs) = True"
| "truthy (Native f) = True"

text \<open>\<^verbatim>\<open>a || b\<close>\<close>

definition or_else :: "jsval \<Rightarrow> jsval \<Rightarrow> jsval" where
  "or_else a b = (if truthy a then a else b)"

text \<open>
  The property read \<^verbatim>\<open>v.k\<close>, for the keys this program reads (\<^verbatim>\<open>link\<close>, \<^verbatim>\<open>meta\<close>,
  \<^verbatim>\<open>url\<close>, \<^verbatim>\<open>title\<close>, \<^verbatim>\<open>image\<close>, \<^verbatim>\<open>description\<close>, \<^verbatim>\<open>lowest_price_gross\<close>,
  \<^verbatim>\<open>operating_days_of_week\<close> and the five configuration options). Reading from
  \<^verbatim>\<open>undefined\<close> or \<^verbatim>\<open>null\<close> throws. An object is the list of its own properties, the
  first binding of a key being its value. Of the keys above only \<^verbatim>\<open>link\<close> is inherited
  from a prototype: every string has the method \<^verbatim>\<open>String.prototype.link\<close>.
\<close>

fun getProp :: "jsval \<Rightarrow> string \<Rightarrow> error + jsval" where
  "getProp Undefined k = Inl TypeError"
| "getProp Null k = Inl TypeError"
| "getProp (Obj ps) k = Inr (case map_of ps (js k) of None \<Rightarrow> Undefined | Some v \<Rightarrow> v)"
| "getProp (Str s) k =
     Inr (if k = ''link'' then Native ''String.prototype.link'' else Undefined)"
| "getProp (Bool b) k = Inr Undefined"
| "getProp (Num n) k = Inr Undefined"
| "getProp (Arr vs) k = Inr Undefined"
| "getProp (Native f) k = Inr Undefined"

text \<open>A property read on a value already known to be neither \<^verbatim>\<open>undefined\<close> nor \<^verbatim>\<open>null\<close>.\<close>

definition the_prop :: "jsval \<Rightarrow> string \<Rightarrow> jsval" where
  "the_prop v k = (case getProp v k of Inl e \<Rightarrow> Undefined | Inr x \<Rightarrow> x)"

definition bindE :: "error + 'a \<Rightarrow> ('a \<Rightarrow> error + 'b) \<Rightarrow> error + 'b" where
  "bindE m f = (case m of Inl e \<Rightarrow> Inl e | Inr v \<Rightarrow> f v)"

section \<open>String built-ins\<close>

text \<open>
  \<^verbatim>\<open>String.prototype.trim\<close> removes leading and trailing code units that are WhiteSpace
  or LineTerminator in ECMAScript.
\<close>

definition isWhiteSpace :: "16 word \<Rightarrow> bool" where
  "isWhiteSpace c =
     (c = 0x0009 \<or> c = 0x000A \<or> c = 0x000B \<or> c = 0x000C \<or> c = 0x000D \<or> c = 0x0020 \<or>
      c = 0x00A0 \<or> c = 0x1680 \<or> (0x2000 \<le> c \<and> c \<le> 0x200A) \<or> c = 0x2028 \<or>
      c = 0x2029 \<or> c = 0x202F \<or> c = 0x205F \<or> c = 0x3000 \<or> c = 0xFEFF)"

definition trim :: "jsstring \<Rightarrow> jsstring" where
  "trim s = rev (dropWhile isWhiteSpace (rev (dropWhile isWhiteSpace s)))"

text \<open>\<^verbatim>\<open>s.includes(t)\<close>: \<open>t\<close> occurs in \<open>s\<close> at some position.\<close>

fun includes_str :: "jsstring \<Rightarrow> jsstring \<Rightarrow> bool" where
  "includes_str [] t = (t = [])"
| "includes_str (c # cs) t = (take (length t) (c # cs) = t \<or> includes_str cs t)"

text \<open>
  \<^verbatim>\<open>s.replace(pat, rep)\<close> with a string pattern: only the first occurrence of \<open>pat\<close>
  is replaced (\<open>rep\<close> without \<^verbatim>\<open>$\<close> patterns).
\<close>

fun replace_str :: "jsstring \<Rightarrow> jsstring \<Rightarrow> jsstring \<Rightarrow> jsstring" where
  "replace_str pat rep [] = (if pat = [] then rep else [])"
| "replace_str pat rep (c # cs) =
     (if take (length pat) (c # cs) = pat then rep @ drop (length pat) (c # cs)
      else c # replace_str pat rep cs)"

text \<open>\<^verbatim>\<open>ch.charCodeAt(0)\<close> of a one-unit match and \<^verbatim>\<open>String.fromCharCode\<close> (ToUint16).\<close>

definition charCodeAt0 :: "16 word \<Rightarrow> int" where
  "charCodeAt0 ch = uint ch"

definition fromCharCode :: "int \<Rightarrow> 16 word" where
  "fromCharCode n = word_of_int n"

text \<open>
  What the language and the host editor supply: \<^verbatim>\<open>String.prototype.toLowerCase\<close> (the
  Unicode lower-casing of a whole string), the string conversion of a value that is not
  a string, the host name of \<^verbatim>\<open>new URL(v)\<close> (\<open>None\<close> when the constructor throws), and
  the translation function \<^verbatim>\<open>api.i18n.t\<close>.
\<close>

record host =
  toLowerCase :: "jsstring \<Rightarrow> jsstring"
  ToString :: "jsval \<Rightarrow> jsstring"
  urlHostname :: "jsval \<Rightarrow> jsstring option"
  i18n_t :: "jsstring \<Rightarrow> jsstring"

section \<open>The widget\<close>

text \<open>\<^verbatim>\<open>this.config\<close>, \<^verbatim>\<open>this._data\<close>, and what the widget sends to the outside.\<close>

record tool_config =
  endpoint :: jsval
  headers :: jsval
  acList :: jsval
  placeholder :: jsval
  language :: jsval

record LinkToolData =
  link :: jsval
  meta :: jsval

record notification =
  message :: jsstring
  style :: string

record request =
  req_url :: jsval
  req_headers :: jsval
  req_data :: jsval

text \<open>
  An \<^verbatim>\<open>li\<close> of the dropdown: its \<^verbatim>\<open>value\<close> (the entry's URL, which its click listener
  captures too) and its \<^verbatim>\<open>textContent\<close> (the entry's title), as assigned, before the DOM
  converts them.
\<close>

record li =
  li_value :: jsval
  li_text :: jsval

text \<open>
  The DOM nodes the widget owns, as far as the methods below read or write them: class
  lists, whether a node is still attached to its parent, the children of the list
  \<^verbatim>\<open>ul#productsList\<close>, and the contents of the preview card (\<open>None\<close> for a node that was
  not created or not filled). All of \<^verbatim>\<open>this.nodes\<close>, \<^verbatim>\<open>this.select\<close> and \<^verbatim>\<open>this.input\<close>
  are \<^verbatim>\<open>null\<close> until \<^verbatim>\<open>render()\<close> has run: the widget's \<open>view\<close> is \<open>None\<close> until then.
\<close>

record view =
  inputHolderClasses :: "string set"
  inputHolderAttached :: bool
  selectClasses :: "string set"
  selectAttached :: bool
  inputValue :: jsstring
  inputPlaceholder :: jsval
  options :: "li list"
  progressClasses :: "string set"
  linkContentAttached :: bool
  imageSrc :: "jsval option"
  titleText :: "jsval option"
  descriptionText :: "jsval option"
  anchorHref :: "jsval option"
  bodyInfo :: bool
  infoWeekText :: "jsval option"
  infoPriceText :: "jsval option"

text \<open>
  The instance: \<^verbatim>\<open>this.config\<close>, \<^verbatim>\<open>this._data\<close>, \<^verbatim>\<open>this.url\<close>, its nodes, and the log of
  what it has asked of the outside: \<^verbatim>\<open>api.notifier.show\<close>, \<^verbatim>\<open>ajax.get\<close>,
  \<^verbatim>\<open>console.error\<close>, and the exceptions lost in a promise continuation.
\<close>

record widget =
  config :: tool_config
  private_data :: LinkToolData
  url :: jsval
  view :: "view option"
  notifications :: "notification list"
  requests :: "request list"
  console :: "jsval list"
  unhandled :: "error list"

text \<open>
  A method returns the instance as it has left it, and the exception it has thrown, if
  any.
\<close>

type_synonym outcome = "error option \<times> widget"

definition andThen :: "outcome \<Rightarrow> (widget \<Rightarrow> outcome) \<Rightarrow> outcome" where
  "andThen r f = (case r of (None, w) \<Rightarrow> f w | (Some e, w) \<Rightarrow> (Some e, w))"

text \<open>A statement that reads or writes a node: a \<^verbatim>\<open>TypeError\<close> while the nodes are null.\<close>

definition on_view :: "widget \<Rightarrow> (view \<Rightarrow> view) \<Rightarrow> outcome" where
  "on_view w f =
     (case view w of None \<Rightarrow> (Some TypeError, w) | Some v \<Rightarrow> (None, w\<lparr>view := Some (f v)\<rparr>))"

subsection \<open>Data accessors, constructor, validate\<close>

text \<open>\<^verbatim>\<open>set data(data)\<close> (lines 172-177) and \<^verbatim>\<open>get data()\<close>.\<close>

definition set_data :: "widget \<Rightarrow> jsval \<Rightarrow> outcome" where
  "set_data w d =
     (case getProp d ''link'' of Inl e \<Rightarrow> (Some e, w) | Inr l \<Rightarrow>
      (case getProp d ''meta'' of Inl e \<Rightarrow> (Some e, w) | Inr m \<Rightarrow>
        (None, w\<lparr>private_data := \<lparr>link = or_else l (link (private_data w)),
                             meta = or_else m (meta (private_data w))\<rparr>\<rparr>)))"

definition get_data :: "widget \<Rightarrow> LinkToolData" where
  "get_data w = private_data w"

text \<open>
  \<^verbatim>\<open>constructor({ data, config, api, readOnly })\<close> (lines 69-113). The option read for the
  placeholder is \<^verbatim>\<open>config.placeHolder\<close>.
\<close>

definition constructor :: "jsval \<Rightarrow> jsval \<Rightarrow> error + widget" where
  "constructor d cfg =
     bindE (getProp cfg ''endpoint'') (\<lambda>e.
     bindE (getProp cfg ''headers'') (\<lambda>h.
     bindE (getProp cfg ''acList'') (\<lambda>a.
     bindE (getProp cfg ''placeHolder'') (\<lambda>p.
     bindE (getProp cfg ''language'') (\<lambda>l.
       (case set_data
          \<lparr>config = \<lparr>endpoint = or_else e (Str []), headers = or_else h (Obj []),
                      acList = or_else a (Obj []), placeholder = or_else p (Obj []),
                      language = or_else l (Str [])\<rparr>,
           private_data = \<lparr>link = Str [], meta = Obj []\<rparr>,
           url = Str [], view = None, notifications = [], requests = [], console = [],
           unhandled = []\<rparr> d
        of (Some x, w) \<Rightarrow> Inl x | (None, w) \<Rightarrow> Inr w))))))"

text \<open>\<^verbatim>\<open>save()\<close> and \<^verbatim>\<open>validate()\<close> (lines 151-165). Only a string has \<^verbatim>\<open>trim\<close>.\<close>

definition save :: "widget \<Rightarrow> LinkToolData" where
  "save w = get_data w"

definition validate :: "widget \<Rightarrow> error + bool" where
  "validate w =
     (case link (get_data w) of Str s \<Rightarrow> Inr (trim s \<noteq> []) | _ \<Rightarrow> Inl TypeError)"

subsection \<open>The dropdown and its filter\<close>

text \<open>
  \<^verbatim>\<open>replaceFullWidthCharactersWithHalfWidth\<close> (lines 290-294): the global replace of the
  character class from U+FF01 to U+FF5E, in a regular expression without the \<^verbatim>\<open>u\<close>
  flag, visits every code unit.
\<close>

definition fullWidthClass :: "16 word \<Rightarrow> bool" where
  "fullWidthClass ch = (0xff01 \<le> ch \<and> ch \<le> 0xff5e)"

definition replaceFullWidthCharactersWithHalfWidth :: "jsstring \<Rightarrow> jsstring" where
  "replaceFullWidthCharactersWithHalfWidth s =
     map (\<lambda>ch. if fullWidthClass ch then fromCharCode (charCodeAt0 ch - 0xfee0) else ch) s"

text \<open>
  The callback of \<^verbatim>\<open>pList.map\<close> in \<^verbatim>\<open>makeProductsList\<close> (lines 301-318) for one entry, and
  the loop: each \<^verbatim>\<open>li\<close> is appended as soon as it is made, so the items appended before
  an exception stay.
\<close>

definition make_li :: "jsval \<Rightarrow> error + li" where
  "make_li entry =
     bindE (getProp entry ''url'') (\<lambda>u.
     bindE (getProp entry ''title'') (\<lambda>t. Inr \<lparr>li_value = u, li_text = t\<rparr>))"

fun append_items :: "jsval list \<Rightarrow> li list \<Rightarrow> error option \<times> li list" where
  "append_items [] ul = (None, ul)"
| "append_items (p # ps) ul =
     (case make_li p of Inl e \<Rightarrow> (Some e, ul) | Inr item \<Rightarrow> append_items ps (ul @ [item]))"

text \<open>
  \<^verbatim>\<open>makeProductsList\<close> and the \<^verbatim>\<open>keyup\<close> listener do not use the widget's own nodes: they
  look the list and the input up in the document, by \<^verbatim>\<open>document.getElementById\<close>, which
  gives the first element with the id in document order, or \<^verbatim>\<open>null\<close>. So they act on a
  page: this block, whether the wrapper that \<^verbatim>\<open>render()\<close> returned has been inserted in
  the document, and the elements with these ids that other ProductList blocks have in
  the document before and after this one: of each \<^verbatim>\<open>ul#productsList\<close> its children, of
  each \<^verbatim>\<open>input#productSelectFilter\<close> its value. (A block that has removed its select label
  after a failed fetch still has its list in the document, but no input.)
\<close>

record page =
  block :: widget
  inserted :: bool
  lists_before :: "li list list"
  filters_before :: "jsstring list"
  lists_after :: "li list list"
  filters_after :: "jsstring list"

text \<open>This block's input holder, when it is in the document.\<close>

definition own_holder :: "page \<Rightarrow> view option" where
  "own_holder p =
     (if inserted p then
        (case view (block p) of
           None \<Rightarrow> None
         | Some v \<Rightarrow> (if inputHolderAttached v then Some v else None))
      else None)"

text \<open>
  The children of \<^verbatim>\<open>document.getElementById('productsList')\<close>, \<open>None\<close> when the lookup
  gives \<^verbatim>\<open>null\<close>, and the page after the children of that element have been replaced.
\<close>

definition productsList :: "page \<Rightarrow> li list option" where
  "productsList p =
     (case lists_before p of
        ul # uls \<Rightarrow> Some ul
      | [] \<Rightarrow>
          (case own_holder p of
             Some v \<Rightarrow> Some (options v)
           | None \<Rightarrow>
               (case lists_after p of
                  ul # uls \<Rightarrow> Some ul
                | [] \<Rightarrow> None)))"

definition set_productsList :: "page \<Rightarrow> li list \<Rightarrow> page" where
  "set_productsList p ul' =
     (case lists_before p of
        ul # uls \<Rightarrow> p\<lparr>lists_before := ul' # uls\<rparr>
      | [] \<Rightarrow>
          (case own_holder p of
             Some v \<Rightarrow> p\<lparr>block := (block p)\<lparr>view := Some (v\<lparr>options := ul'\<rparr>)\<rparr>\<rparr>
           | None \<Rightarrow>
               (case lists_after p of
                  ul # uls \<Rightarrow> p\<lparr>lists_after := ul' # uls\<rparr>
                | [] \<Rightarrow> p)))"

text \<open>
  The value of \<^verbatim>\<open>document.getElementById('productSelectFilter')\<close>, \<open>None\<close> when the lookup
  gives \<^verbatim>\<open>null\<close>. The block's own input is in the document while its holder is and its
  select label has not been removed.
\<close>

definition productSelectFilter :: "page \<Rightarrow> jsstring option" where
  "productSelectFilter p =
     (case filters_before p of
        s # ss \<Rightarrow> Some s
      | [] \<Rightarrow>
          (case (case own_holder p of
                   Some v \<Rightarrow> (if selectAttached v then Some (inputValue v) else None)
                 | None \<Rightarrow> None) of
             Some s \<Rightarrow> Some s
           | None \<Rightarrow>
               (case filters_after p of
                  s # ss \<Rightarrow> Some s
                | [] \<Rightarrow> None)))"

text \<open>
  \<^verbatim>\<open>makeProductsList(pList)\<close> (lines 301-318). Only an array has \<^verbatim>\<open>map\<close> and \<^verbatim>\<open>filter\<close>.
  When the lookup gives \<^verbatim>\<open>null\<close>, the callback of \<^verbatim>\<open>map\<close> throws on the first entry, at
  the latest in \<^verbatim>\<open>ulList.appendChild\<close>.
\<close>

definition makeProductsList :: "page \<Rightarrow> jsval \<Rightarrow> error option \<times> page" where
  "makeProductsList p pList =
     (case pList of
        Arr ps \<Rightarrow>
          (case productsList p of
             None \<Rightarrow> (if ps = [] then None else Some TypeError, p)
           | Some ulList \<Rightarrow>
               (case append_items ps ulList of
                  (r, ul) \<Rightarrow> (r, set_productsList p ul)))
      | _ \<Rightarrow> (Some TypeError, p))"

text \<open>
  \<^verbatim>\<open>filterProductsList\<close> (lines 325-337). The filter's callback reads \<^verbatim>\<open>product.title\<close>
  and calls \<^verbatim>\<open>toLowerCase\<close> on it, which only a string has.
\<close>

definition title_matches :: "host \<Rightarrow> jsstring \<Rightarrow> jsval \<Rightarrow> error + bool" where
  "title_matches h text product =
     (case getProp product ''title'' of
        Inl e \<Rightarrow> Inl e
      | Inr (Str t) \<Rightarrow>
          Inr (includes_str (replaceFullWidthCharactersWithHalfWidth (toLowerCase h t)) text)
      | Inr _ \<Rightarrow> Inl TypeError)"

fun filter_arr :: "('a \<Rightarrow> error + bool) \<Rightarrow> 'a list \<Rightarrow> error + 'a list" where
  "filter_arr f [] = Inr []"
| "filter_arr f (x # xs) =
     (case f x of
        Inl e \<Rightarrow> Inl e
      | Inr b \<Rightarrow>
          (case filter_arr f xs of
             Inl e \<Rightarrow> Inl e
           | Inr ys \<Rightarrow> Inr (if b then x # ys else ys)))"

definition filterProductsList :: "host \<Rightarrow> page \<Rightarrow> jsstring \<Rightarrow> error option \<times> page" where
  "filterProductsList h p filterText =
     (let text = replaceFullWidthCharactersWithHalfWidth (toLowerCase h filterText) in
      if text = [] then makeProductsList p (acList (config (block p)))
      else
        (case acList (config (block p)) of
           Arr ps \<Rightarrow>
             (case filter_arr (title_matches h text) ps of
                Inl e \<Rightarrow> (Some e, p)
              | Inr selected \<Rightarrow> makeProductsList p (Arr selected))
         | _ \<Rightarrow> (Some TypeError, p)))"

text \<open>
  The \<^verbatim>\<open>keyup\<close> listener \<^verbatim>\<open>filteringProducts\<close> (lines 240-246): it reads the value of the
  input it finds, empties the list it finds, and filters.
\<close>

definition filteringProducts :: "host \<Rightarrow> page \<Rightarrow> error option \<times> page" where
  "filteringProducts h p =
     (case productSelectFilter p of
        None \<Rightarrow> (Some TypeError, p)
      | Some typed \<Rightarrow>
          (case productsList p of
             None \<Rightarrow> (Some TypeError, p)
           | Some ulList \<Rightarrow> filterProductsList h (set_productsList p []) typed))"

subsection \<open>The preview card\<close>

text \<open>The yen glyph, U+5186, one code unit.\<close>

definition yen :: "16 word" where
  "yen = 0x5186"

text \<open>
  The price text of \<^verbatim>\<open>showLinkPreview\<close> (lines 423-431) for a truthy
  \<^verbatim>\<open>meta.lowest_price_gross\<close>. \<^verbatim>\<open>regex.test\<close> converts its argument to a string; only a
  string has \<^verbatim>\<open>replace\<close>.
\<close>

definition price_text :: "host \<Rightarrow> jsval \<Rightarrow> jsval \<Rightarrow> error + jsval" where
  "price_text h lang price =
     (if lang \<noteq> Str (js ''ja-JP'') then
        (if yen \<in> set (case price of Str s \<Rightarrow> s | _ \<Rightarrow> ToString h price) then
           (case price of
              Str s \<Rightarrow> Inr (Str (js ''JPY '' @ replace_str [yen] [] s))
            | _ \<Rightarrow> Inl TypeError)
         else Inr price)
      else Inr price)"

text \<open>
  The end of \<^verbatim>\<open>showLinkPreview\<close> (lines 438-446): when \<^verbatim>\<open>new URL\<close> throws, the handler
  writes to \<^verbatim>\<open>this.nodes.linkText\<close>, a node that is never created, and throws in turn.
\<close>

definition check_host :: "host \<Rightarrow> widget \<Rightarrow> outcome" where
  "check_host h w =
     (case urlHostname h (link (get_data w)) of
        None \<Rightarrow> (Some TypeError, w)
      | Some getHost \<Rightarrow>
          (if getHost = [] then (None, w\<lparr>console := console w @ [Str (js ''can't get host name'')]\<rparr>)
           else (None, w)))"

text \<open>\<^verbatim>\<open>showLinkPreview(meta)\<close> (lines 384-447).\<close>

definition showLinkPreview :: "host \<Rightarrow> widget \<Rightarrow> jsval \<Rightarrow> outcome" where
  "showLinkPreview h w m =
     (case view w of
        None \<Rightarrow> (Some TypeError, w)
      | Some v0 \<Rightarrow>
          (let v1 = v0\<lparr>linkContentAttached := True\<rparr> in
           case getProp m ''image'' of
             Inl e \<Rightarrow> (Some e, w\<lparr>view := Some v1\<rparr>)
           | Inr img \<Rightarrow>
               (let v2 = (if truthy img then v1\<lparr>imageSrc := Some img\<rparr> else v1);
                    v3 = (if truthy (the_prop m ''title'')
                          then v2\<lparr>titleText := Some (the_prop m ''title'')\<rparr> else v2);
                    v4 = (if truthy (the_prop m ''description'')
                          then v3\<lparr>descriptionText := Some (the_prop m ''description'')\<rparr>
                          else v3);
                    v5 = v4\<lparr>anchorHref := Some (link (get_data w))\<rparr>;
                    price = the_prop m ''lowest_price_gross'';
                    week = the_prop m ''operating_days_of_week''
                in
                if truthy price \<or> truthy week then
                  (let v6 = (if truthy week then v5\<lparr>infoWeekText := Some week\<rparr> else v5) in
                   if truthy price then
                     (case price_text h (language (config w)) price of
                        Inl e \<Rightarrow> (Some e, w\<lparr>view := Some v6\<rparr>)
                      | Inr txt \<Rightarrow>
                          check_host h
                            (w\<lparr>view := Some (v6\<lparr>infoPriceText := Some txt, bodyInfo := True\<rparr>)\<rparr>))
                   else check_host h (w\<lparr>view := Some (v6\<lparr>bodyInfo := True\<rparr>)\<rparr>))
                else check_host h (w\<lparr>view := Some v5\<rparr>))))"

subsection \<open>Rendering\<close>

text \<open>
  \<^verbatim>\<open>makeInputHolder\<close> (lines 224-282) and \<^verbatim>\<open>prepareLinkPreview\<close> (lines 361-377) create
  the nodes; the dropdown is filled by \<^verbatim>\<open>this.config.acList.map\<close>.
\<close>

definition makeInputHolder :: "widget \<Rightarrow> error + view" where
  "makeInputHolder w =
     (case acList (config w) of
        Arr ps \<Rightarrow>
          (case append_items ps [] of
             (Some e, ul) \<Rightarrow> Inl e
           | (None, ul) \<Rightarrow>
               Inr \<lparr>inputHolderClasses = {''c-form-single''}, inputHolderAttached = False,
                    selectClasses = {''select'', ''placeholder''}, selectAttached = True,
                    inputValue = [], inputPlaceholder = placeholder (config w),
                    options = ul, progressClasses = {''progress''},
                    linkContentAttached = False, imageSrc = None, titleText = None,
                    descriptionText = None, anchorHref = None, bodyInfo = False,
                    infoWeekText = None, infoPriceText = None\<rparr>)
      | _ \<Rightarrow> Inl TypeError)"

text \<open>The number of \<^verbatim>\<open>Object.keys(v)\<close>.\<close>

fun keys_length :: "jsval \<Rightarrow> error + nat" where
  "keys_length Undefined = Inl TypeError"
| "keys_length Null = Inl TypeError"
| "keys_length (Obj ps) = Inr (length (remdups (map fst ps)))"
| "keys_length (Str s) = Inr (length s)"
| "keys_length (Arr vs) = Inr (length vs)"
| "keys_length (Bool b) = Inr 0"
| "keys_length (Num n) = Inr 0"
| "keys_length (Native f) = Inr 0"

text \<open>\<^verbatim>\<open>render()\<close> (lines 122-142).\<close>

definition render :: "host \<Rightarrow> widget \<Rightarrow> outcome" where
  "render h w =
     (case makeInputHolder w of
        Inl e \<Rightarrow> (Some e, w)
      | Inr v \<Rightarrow>
          (case keys_length (meta (get_data w)) of
             Inl e \<Rightarrow> (Some e, w\<lparr>view := Some v\<rparr>)
           | Inr n \<Rightarrow>
               (if n \<noteq> 0
                then showLinkPreview h (w\<lparr>view := Some (v\<lparr>linkContentAttached := True\<rparr>)\<rparr>)
                       (meta (get_data w))
                else (None, w\<lparr>view := Some (v\<lparr>inputHolderAttached := True\<rparr>)\<rparr>))))"

subsection \<open>Fetching\<close>

text \<open>
  \<^verbatim>\<open>showProgress\<close>, \<^verbatim>\<open>hideProgress\<close>, \<^verbatim>\<open>removeErrorStyle\<close>, \<^verbatim>\<open>applyErrorStyle\<close> and
  \<^verbatim>\<open>fetchingFailed\<close> (lines 352-354, 454-480, 547-554).
\<close>

definition showProgress :: "widget \<Rightarrow> outcome" where
  "showProgress w = on_view w (\<lambda>v. v\<lparr>progressClasses := insert ''loading'' (progressClasses v)\<rparr>)"

definition hideProgress :: "widget \<Rightarrow> outcome" where
  "hideProgress w =
     on_view w (\<lambda>v. v\<lparr>progressClasses := insert ''loaded'' (progressClasses v - {''loading''})\<rparr>)"

definition removeErrorStyle :: "widget \<Rightarrow> outcome" where
  "removeErrorStyle w =
     on_view w (\<lambda>v. v\<lparr>inputHolderClasses :=
                         inputHolderClasses v - {''link-tool__input-holder--error''}\<rparr>)"

definition applyErrorStyle :: "widget \<Rightarrow> outcome" where
  "applyErrorStyle w =
     on_view w (\<lambda>v. v\<lparr>inputHolderClasses :=
                         insert ''link-tool__input-holder--error'' (inputHolderClasses v),
                       selectAttached := False\<rparr>)"

definition fetchingFailed :: "widget \<Rightarrow> jsstring \<Rightarrow> outcome" where
  "fetchingFailed w errorMessage =
     applyErrorStyle
       (w\<lparr>notifications := notifications w @ [\<lparr>message = errorMessage, style = ''error''\<rparr>]\<rparr>)"

text \<open>
  An exception thrown inside a promise (the executor of \<^verbatim>\<open>hideProgress\<close>, the callback
  of its \<^verbatim>\<open>then\<close>) rejects that promise, which nobody handles: the caller goes on.
\<close>

definition lost :: "outcome \<Rightarrow> outcome" where
  "lost r = (case r of (None, w) \<Rightarrow> (None, w)
                     | (Some e, w) \<Rightarrow> (None, w\<lparr>unhandled := unhandled w @ [e]\<rparr>))"

text \<open>
  \<^verbatim>\<open>onFetch(response, code)\<close> (lines 511-538). The continuation after \<^verbatim>\<open>hideProgress\<close>
  runs half a second later; the model runs it at once.
\<close>

definition onFetch :: "host \<Rightarrow> widget \<Rightarrow> jsval \<Rightarrow> int \<Rightarrow> outcome" where
  "onFetch h w response code =
     (if code \<ge> 400 then
        andThen
          (fetchingFailed w (i18n_t h (js ''Couldn't get this link data, try the other one'')))
          (\<lambda>w1. (None, w1\<lparr>console := console w1 @ [response]\<rparr>))
      else
        (let metaData = response in
         case getProp response ''link'' of
           Inl e \<Rightarrow> (Some e, w)
         | Inr l \<Rightarrow>
             andThen
               (set_data w (Obj [(js ''meta'', metaData),
                                 (js ''link'', or_else l (link (get_data w)))]))
               (\<lambda>w1.
                  if \<not> truthy metaData then
                    fetchingFailed w1 (i18n_t h (js ''Wrong response format from the server''))
                  else
                    lost (andThen (hideProgress w1) (\<lambda>w2.
                          andThen (on_view w2 (\<lambda>v. v\<lparr>inputHolderAttached := False\<rparr>)) (\<lambda>w3.
                          showLinkPreview h w3 metaData))))))"

text \<open>
  \<^verbatim>\<open>this.headers\<close>, as read in \<^verbatim>\<open>fetchLinkData\<close> (line 494): the class assigns no property
  of that name, in the constructor or elsewhere, and declares no accessor for it, so the
  read gives \<^verbatim>\<open>undefined\<close>.
\<close>

definition this_headers :: "widget \<Rightarrow> jsval" where
  "this_headers w = Undefined"

text \<open>
  What \<^verbatim>\<open>await ajax.get(...)\<close> gives: a rejection, or a result \<^verbatim>\<open>{ body, code }\<close>.
\<close>

datatype ajax_result = Rejected | Resolved jsval int

text \<open>
  \<^verbatim>\<open>fetchLinkData(url)\<close> (lines 487-503), in two halves: up to the request, and from the
  answer on. An exception it returns is the rejection of its promise.
\<close>

definition fetchLinkData_request :: "widget \<Rightarrow> jsval \<Rightarrow> outcome" where
  "fetchLinkData_request w u =
     andThen (showProgress w) (\<lambda>w1.
     andThen (set_data w1 (Obj [(js ''link'', u)])) (\<lambda>w2.
       (None, w2\<lparr>requests := requests w2 @
                     [\<lparr>req_url = endpoint (config w2), req_headers = this_headers w2,
                       req_data = Obj [(js ''url'', u)]\<rparr>]\<rparr>)))"

definition fetchLinkData_answer :: "host \<Rightarrow> widget \<Rightarrow> ajax_result \<Rightarrow> outcome" where
  "fetchLinkData_answer h w r =
     (case r of
        Rejected \<Rightarrow> fetchingFailed w (i18n_t h (js ''Couldn't fetch the link data''))
      | Resolved body code \<Rightarrow>
          (case onFetch h w body code of
             (None, w1) \<Rightarrow> (None, w1)
           | (Some e, w1) \<Rightarrow>
               fetchingFailed w1 (i18n_t h (js ''Couldn't fetch the link data''))))"

definition fetchLinkData :: "host \<Rightarrow> widget \<Rightarrow> jsval \<Rightarrow> ajax_result \<Rightarrow> outcome" where
  "fetchLinkData h w u r =
     andThen (fetchLinkData_request w u) (\<lambda>w1. fetchLinkData_answer h w1 r)"

text \<open>
  \<^verbatim>\<open>startFetching()\<close> (lines 342-347); it does not await the promise of
  \<^verbatim>\<open>fetchLinkData\<close>.
\<close>

definition startFetching :: "host \<Rightarrow> widget \<Rightarrow> ajax_result \<Rightarrow> outcome" where
  "startFetching h w r =
     (let u = url w in andThen (removeErrorStyle w) (\<lambda>w1. lost (fetchLinkData h w1 u r)))"

section \<open>Sample instances\<close>

text \<open>
  A host for evaluating the model on concrete inputs: lower-casing restricted to the
  Basic Latin and the full-width Latin capital letters (where it agrees with
  \<^verbatim>\<open>toLowerCase\<close>), the host name of the one URL used below, and a translation function
  that returns its key.
\<close>

definition lower_unit :: "16 word \<Rightarrow> 16 word" where
  "lower_unit c =
     (if (0x41 \<le> c \<and> c \<le> 0x5a) \<or> (0xff21 \<le> c \<and> c \<le> 0xff3a) then c + 0x20 else c)"

definition sample_host :: host where
  "sample_host =
     \<lparr>toLowerCase = map lower_unit,
      ToString = (\<lambda>v. js ''[object Object]''),
      urlHostname = (\<lambda>v. if v = Str (js ''http://a'') then Some (js ''a'') else None),
      i18n_t = (\<lambda>key. key)\<rparr>"

text \<open>A catalog entry \<^verbatim>\<open>{ url, title }\<close>, a configuration, and saved data with a link.\<close>

definition catalogEntry :: "jsstring \<Rightarrow> jsstring \<Rightarrow> jsval" where
  "catalogEntry u t = Obj [(js ''url'', Str u), (js ''title'', Str t)]"

definition sample_config :: jsval where
  "sample_config =
     Obj [(js ''endpoint'', Str (js ''/fetch'')),
          (js ''headers'', Obj [(js ''X-Token'', Str (js ''abc''))]),
          (js ''acList'', Arr [catalogEntry (js ''http://a'') (js ''Tokyo Tour''),
                               catalogEntry (js ''http://b'') (js ''Kyoto Walk'')]),
          (js ''language'', Str (js ''en-US''))]"

definition sample_data :: jsval where
  "sample_data = Obj [(js ''link'', Str (js ''http://a''))]"

text \<open>The widget constructed from them, and the same widget once rendered.\<close>

definition sample_new :: widget where
  "sample_new =
     \<lparr>config =
        \<lparr>endpoint = Str (js ''/fetch''),
         headers = Obj [(js ''X-Token'', Str (js ''abc''))],
         acList = Arr [catalogEntry (js ''http://a'') (js ''Tokyo Tour''),
                       catalogEntry (js ''http://b'') (js ''Kyoto Walk'')],
         placeholder = Obj [], language = Str (js ''en-US'')\<rparr>,
      private_data = \<lparr>link = Str (js ''http://a''), meta = Obj []\<rparr>,
      url = Str [], view = None, notifications = [], requests = [], console = [],
      unhandled = []\<rparr>"

definition sample_view :: view where
  "sample_view =
     \<lparr>inputHolderClasses = {''c-form-single''}, inputHolderAttached = True,
      selectClasses = {''select'', ''placeholder''}, selectAttached = True,
      inputValue = [], inputPlaceholder = Obj [],
      options = [\<lparr>li_value = Str (js ''http://a''), li_text = Str (js ''Tokyo Tour'')\<rparr>,
                 \<lparr>li_value = Str (js ''http://b''), li_text = Str (js ''Kyoto Walk'')\<rparr>],
      progressClasses = {''progress''},
      linkContentAttached = False, imageSrc = None, titleText = None,
      descriptionText = None, anchorHref = None, bodyInfo = False,
      infoWeekText = None, infoPriceText = None\<rparr>"

definition sample_widget :: widget where
  "sample_widget = sample_new\<lparr>view := Some sample_view\<rparr>"

text \<open>
  The page that holds the rendered sample widget and no other block, and saved data that
  has metadata as well.
\<close>

definition sample_page :: page where
  "sample_page =
     \<lparr>block = sample_widget, inserted = True, lists_before = [], filters_before = [],
      lists_after = [], filters_after = []\<rparr>"

definition sample_saved :: jsval where
  "sample_saved =
     Obj [(js ''link'', Str (js ''http://a'')), (js ''meta'', Obj [(js ''title'', Str (js ''T''))])]"

section \<open>Notions used to state the properties\<close>

text \<open>A key that an object literal does not bind, or binds to a falsy value.\<close>

definition absent_or_falsy :: "(jsstring \<times> jsval) list \<Rightarrow> string \<Rightarrow> bool" where
  "absent_or_falsy ps k = (case map_of ps (js k) of None \<Rightarrow> True | Some x \<Rightarrow> \<not> truthy x)"

text \<open>
  The key under which a title and the filter text are compared (\<^verbatim>\<open>toLowerCase\<close>, then
  \<^verbatim>\<open>replaceFullWidthCharactersWithHalfWidth\<close>, as \<^verbatim>\<open>filterProductsList\<close> applies them); a
  catalog entry whose \<^verbatim>\<open>title\<close> is a string, that title, and the \<^verbatim>\<open>li\<close> made for the
  entry.
\<close>

definition normalized :: "host \<Rightarrow> jsstring \<Rightarrow> jsstring" where
  "normalized h s = replaceFullWidthCharactersWithHalfWidth (toLowerCase h s)"

definition has_string_title :: "jsval \<Rightarrow> bool" where
  "has_string_title e = (case getProp e ''title'' of Inr (Str t) \<Rightarrow> True | _ \<Rightarrow> False)"

definition entry_title :: "jsval \<Rightarrow> jsstring" where
  "entry_title e = (case the_prop e ''title'' of Str t \<Rightarrow> t | _ \<Rightarrow> [])"

definition entry_li :: "jsval \<Rightarrow> li" where
  "entry_li e = \<lparr>li_value = the_prop e ''url'', li_text = the_prop e ''title''\<rparr>"

text \<open>The text of the price line after a method has run, \<open>None\<close> when there is no price line.\<close>

definition rendered_price :: "outcome \<Rightarrow> jsval option" where
  "rendered_price r = (case view (snd r) of None \<Rightarrow> None | Some v \<Rightarrow> infoPriceText v)"

section \<open>Properties\<close>

subsection \<open>The sample widget is a state the code reaches\<close>

lemma sample_new_constructed: "constructor sample_data sample_config = Inr sample_new"
  by (simp add: constructor_def sample_config_def sample_data_def sample_new_def bindE_def
      set_data_def or_else_def js_def catalogEntry_def)

lemma sample_widget_rendered: "render sample_host sample_new = (None, sample_widget)"
  by (simp add: render_def makeInputHolder_def sample_widget_def sample_view_def
      sample_new_def get_data_def make_li_def bindE_def js_def catalogEntry_def)

lemma sample_widget_view: "view sample_widget = Some sample_view"
  by (simp add: sample_widget_def)

subsection \<open>Full-width characters\<close>

lemma fullWidth_char:
  assumes "fullWidthClass ch"
  shows "uint (fromCharCode (charCodeAt0 ch - 0xfee0)) = uint ch - 0xfee0"
    and "0x21 \<le> uint ch - 0xfee0" and "uint ch - 0xfee0 \<le> 0x7e"
proof -
  from assms have a: "0xff01 \<le> uint ch" and b: "uint ch \<le> 0xff5e"
    by (simp_all add: fullWidthClass_def word_le_def)
  show "0x21 \<le> uint ch - 0xfee0" using a by simp
  show "uint ch - 0xfee0 \<le> 0x7e" using b by simp
  have "uint (fromCharCode (charCodeAt0 ch - 0xfee0)) = (uint ch - 0xfee0) mod 2 ^ 16"
    unfolding fromCharCode_def charCodeAt0_def
    by (simp only: uint_word_of_int_eq take_bit_eq_mod) simp
  also have "\<dots> = uint ch - 0xfee0" using a b by simp
  finally show "uint (fromCharCode (charCodeAt0 ch - 0xfee0)) = uint ch - 0xfee0" .
qed

lemma fullWidth_char_out:
  assumes "fullWidthClass ch"
  shows "\<not> fullWidthClass (fromCharCode (charCodeAt0 ch - 0xfee0))"
proof -
  have "uint (fromCharCode (charCodeAt0 ch - 0xfee0)) \<le> 0x7e"
    using fullWidth_char [OF assms] by simp
  then show ?thesis by (simp add: fullWidthClass_def word_le_def)
qed

lemma fullWidthClass_uint:
  "fullWidthClass ch = (0xff01 \<le> uint ch \<and> uint ch \<le> 0xff5e)"
  by (simp add: fullWidthClass_def word_le_def)

text \<open>
  Claim C10. \<^verbatim>\<open>replaceFullWidthCharactersWithHalfWidth\<close> keeps the length of the string;
  at every position, a code unit from U+FF01 to U+FF5E is replaced by the code unit whose
  code is 0xFEE0 lower, which lies between 0x21 and 0x7E, and any other code unit is left
  as it is; and applying the function twice gives the same string as applying it once.
\<close>

theorem replaceFullWidth_spec:
  "length (replaceFullWidthCharactersWithHalfWidth s) = length s \<and>
   (\<forall>i<length s.
      if 0xff01 \<le> uint (s ! i) \<and> uint (s ! i) \<le> 0xff5e
      then uint (replaceFullWidthCharactersWithHalfWidth s ! i) = uint (s ! i) - 0xfee0 \<and>
           0x21 \<le> uint (replaceFullWidthCharactersWithHalfWidth s ! i) \<and>
           uint (replaceFullWidthCharactersWithHalfWidth s ! i) \<le> 0x7e
      else replaceFullWidthCharactersWithHalfWidth s ! i = s ! i) \<and>
   replaceFullWidthCharactersWithHalfWidth (replaceFullWidthCharactersWithHalfWidth s) =
     replaceFullWidthCharactersWithHalfWidth s"
proof (intro conjI allI impI)
  show "length (replaceFullWidthCharactersWithHalfWidth s) = length s"
    by (simp add: replaceFullWidthCharactersWithHalfWidth_def)
next
  fix i assume i: "i < length s"
  show "if 0xff01 \<le> uint (s ! i) \<and> uint (s ! i) \<le> 0xff5e
      then uint (replaceFullWidthCharactersWithHalfWidth s ! i) = uint (s ! i) - 0xfee0 \<and>
           0x21 \<le> uint (replaceFullWidthCharactersWithHalfWidth s ! i) \<and>
           uint (replaceFullWidthCharactersWithHalfWidth s ! i) \<le> 0x7e
      else replaceFullWidthCharactersWithHalfWidth s ! i = s ! i"
  proof (cases "fullWidthClass (s ! i)")
    case True
    have r: "replaceFullWidthCharactersWithHalfWidth s ! i =
               fromCharCode (charCodeAt0 (s ! i) - 0xfee0)"
      using True i by (simp add: replaceFullWidthCharactersWithHalfWidth_def)
    have c: "0xff01 \<le> uint (s ! i) \<and> uint (s ! i) \<le> 0xff5e"
      using True by (simp add: fullWidthClass_uint)
    show ?thesis
      unfolding r using c fullWidth_char [OF True] by presburger
  next
    case False
    have r: "replaceFullWidthCharactersWithHalfWidth s ! i = s ! i"
      using False i by (simp add: replaceFullWidthCharactersWithHalfWidth_def)
    have c: "\<not> (0xff01 \<le> uint (s ! i) \<and> uint (s ! i) \<le> 0xff5e)"
      using False by (simp add: fullWidthClass_uint)
    show ?thesis
      unfolding r using c by presburger
  qed
next
  show "replaceFullWidthCharactersWithHalfWidth (replaceFullWidthCharactersWithHalfWidth s) =
     replaceFullWidthCharactersWithHalfWidth s"
    unfolding replaceFullWidthCharactersWithHalfWidth_def
    by (induction s) (simp_all add: fullWidth_char_out)
qed

theorem replaceFullWidth_spec_witness:
  "replaceFullWidthCharactersWithHalfWidth [0xff21, 0x41, 0x5186, 0xff5e, 0xff5f, 0xff00, 0xff01]
     = [0x41, 0x41, 0x5186, 0x7e, 0xff5f, 0xff00, 0x21]
   \<and> uint (replaceFullWidthCharactersWithHalfWidth [0xff21, 0x5186] ! 0) = 0x41
   \<and> replaceFullWidthCharactersWithHalfWidth [0xff21, 0x5186] ! 1 = 0x5186"
  using replaceFullWidth_spec [of "[0xff21, 0x5186]"]
  by (simp add: replaceFullWidthCharactersWithHalfWidth_def fullWidthClass_def
      fromCharCode_def charCodeAt0_def)


subsection \<open>Validation\<close>

lemma trim_empty_iff: "(trim s \<noteq> []) = (\<exists>c\<in>set s. \<not> isWhiteSpace c)"
proof -
  have "(trim s \<noteq> []) = (\<exists>c\<in>set (dropWhile isWhiteSpace s). \<not> isWhiteSpace c)"
    by (simp add: trim_def dropWhile_eq_Nil_conv)
  also have "\<dots> = (\<exists>c\<in>set s. \<not> isWhiteSpace c)"
  proof
    assume "\<exists>c\<in>set (dropWhile isWhiteSpace s). \<not> isWhiteSpace c"
    then show "\<exists>c\<in>set s. \<not> isWhiteSpace c" by (blast dest: set_dropWhileD)
  next
    assume "\<exists>c\<in>set s. \<not> isWhiteSpace c"
    then have ne: "dropWhile isWhiteSpace s \<noteq> []" by (simp add: dropWhile_eq_Nil_conv)
    then have "\<not> isWhiteSpace (hd (dropWhile isWhiteSpace s))" by (rule hd_dropWhile)
    moreover have "hd (dropWhile isWhiteSpace s) \<in> set (dropWhile isWhiteSpace s)"
      using ne by simp
    ultimately show "\<exists>c\<in>set (dropWhile isWhiteSpace s). \<not> isWhiteSpace c" by blast
  qed
  finally show ?thesis .
qed

lemma trim_samples:
  "trim [] = []" "trim (js ''   '') = []" "trim (js ''http://x'') = js ''http://x''"
  by (simp_all add: trim_def js_def isWhiteSpace_def)

text \<open>
  Claim C5. For a stored link that is a string, \<^verbatim>\<open>validate()\<close> returns whether the trimmed
  link is non-empty, that is, whether the link has a code unit that is not white space.
  It returns false for the links \<^verbatim>\<open>''\<close> and \<^verbatim>\<open>'   '\<close> and true for \<^verbatim>\<open>'http://x'\<close>.
\<close>

theorem validate_spec:
  assumes "link (get_data w) = Str s"
  shows "validate w = Inr (trim s \<noteq> []) \<and>
         (trim s \<noteq> []) = (\<exists>c\<in>set s. \<not> isWhiteSpace c) \<and>
         (s = [] \<longrightarrow> validate w = Inr False) \<and>
         (s = js ''   '' \<longrightarrow> validate w = Inr False) \<and>
         (s = js ''http://x'' \<longrightarrow> validate w = Inr True)"
proof -
  have v: "validate w = Inr (trim s \<noteq> [])"
    using assms by (simp add: validate_def)
  have "js ''http://x'' \<noteq> []" by (simp add: js_def)
  with v show ?thesis
    by (simp add: trim_empty_iff [symmetric] trim_samples)
qed


theorem validate_spec_witness:
  "link (get_data sample_widget) = Str (js ''http://a'') \<and>
   validate sample_widget = Inr True"
proof -
  have l: "link (get_data sample_widget) = Str (js ''http://a'')"
    by (simp add: get_data_def sample_widget_def sample_new_def)
  have t: "trim (js ''http://a'') \<noteq> []"
    by (simp add: trim_def js_def isWhiteSpace_def)
  show ?thesis using validate_spec [OF l] l t by simp
qed

subsection \<open>The data setter\<close>

lemma or_else_not_empty: "b \<noteq> Str [] \<Longrightarrow> or_else a b \<noteq> Str []"
  by (cases a) (auto simp: or_else_def)

lemma set_data_link_cases:
  "link (get_data (snd (set_data w d))) = link (get_data w) \<or>
   truthy (link (get_data (snd (set_data w d))))"
  by (auto simp: set_data_def get_data_def or_else_def split: sum.splits)

text \<open>
  Claim C9. Assigning an object through the setter never throws; a \<^verbatim>\<open>link\<close> (a \<^verbatim>\<open>meta\<close>)
  that the object lacks or binds to a falsy value leaves the stored link (meta) as it
  was. Whatever is assigned, a stored link other than the empty string is not the empty
  string afterwards.
\<close>

theorem set_data_keeps:
  "(\<exists>w'. set_data w (Obj ps) = (None, w') \<and>
      (absent_or_falsy ps ''link'' \<longrightarrow> link (get_data w') = link (get_data w)) \<and>
      (absent_or_falsy ps ''meta'' \<longrightarrow> meta (get_data w') = meta (get_data w))) \<and>
   (link (get_data w) \<noteq> Str [] \<longrightarrow> link (get_data (snd (set_data w d))) \<noteq> Str [])"
proof (intro conjI impI)
  show "\<exists>w'. set_data w (Obj ps) = (None, w') \<and>
      (absent_or_falsy ps ''link'' \<longrightarrow> link (get_data w') = link (get_data w)) \<and>
      (absent_or_falsy ps ''meta'' \<longrightarrow> meta (get_data w') = meta (get_data w))"
    by (auto simp: set_data_def get_data_def or_else_def absent_or_falsy_def
        split: option.splits)
next
  assume ne: "link (get_data w) \<noteq> Str []"
  from set_data_link_cases [of w d]
  show "link (get_data (snd (set_data w d))) \<noteq> Str []"
  proof
    assume "link (get_data (snd (set_data w d))) = link (get_data w)"
    with ne show ?thesis by simp
  next
    assume "truthy (link (get_data (snd (set_data w d))))"
    then show ?thesis by auto
  qed
qed

theorem set_data_keeps_witness:
  "absent_or_falsy [(js ''link'', Str [])] ''link'' \<and>
   absent_or_falsy [(js ''link'', Str [])] ''meta'' \<and>
   link (get_data sample_widget) \<noteq> Str [] \<and>
   fst (set_data sample_widget (Obj [(js ''link'', Str [])])) = None \<and>
   link (get_data (snd (set_data sample_widget (Obj [(js ''link'', Str [])])))) =
     Str (js ''http://a'') \<and>
   meta (get_data (snd (set_data sample_widget (Obj [(js ''link'', Str [])])))) = Obj [] \<and>
   link (get_data (snd (set_data sample_widget (Obj [(js ''link'', Str [])])))) \<noteq> Str []"
proof -
  have a: "absent_or_falsy [(js ''link'', Str [])] ''link''"
    and b: "absent_or_falsy [(js ''link'', Str [])] ''meta''"
    by (simp_all add: absent_or_falsy_def js_def)
  have l: "link (get_data sample_widget) = Str (js ''http://a'')"
    and m: "meta (get_data sample_widget) = Obj []"
    by (simp_all add: get_data_def sample_widget_def sample_new_def)
  have n: "Str (js ''http://a'') \<noteq> Str []" by (simp add: js_def)
  show ?thesis
    using set_data_keeps [of sample_widget "[(js ''link'', Str [])]" "Obj [(js ''link'', Str [])]"]
      a b l m n by auto
qed

subsection \<open>Filtering the catalog\<close>

lemma includes_str_iff: "includes_str s t = (\<exists>ps ss. s = ps @ t @ ss)"
proof (induction s)
  case Nil
  show ?case by auto
next
  case (Cons c cs)
  have pre: "(take (length t) (c # cs) = t) = (\<exists>ss. c # cs = t @ ss)"
  proof
    assume "take (length t) (c # cs) = t"
    then have "c # cs = t @ drop (length t) (c # cs)"
      by (metis append_take_drop_id)
    then show "\<exists>ss. c # cs = t @ ss" ..
  next
    assume "\<exists>ss. c # cs = t @ ss"
    then obtain ss where "c # cs = t @ ss" ..
    then show "take (length t) (c # cs) = t" by simp
  qed
  show ?case
  proof
    assume "includes_str (c # cs) t"
    then consider "\<exists>ss. c # cs = t @ ss" | "includes_str cs t" using pre by auto
    then show "\<exists>ps ss. c # cs = ps @ t @ ss"
    proof cases
      case 1
      then obtain ss where "c # cs = [] @ t @ ss" by auto
      then show ?thesis by blast
    next
      case 2
      with Cons.IH obtain ps ss where "cs = ps @ t @ ss" by auto
      then have "c # cs = (c # ps) @ t @ ss" by simp
      then show ?thesis by blast
    qed
  next
    assume "\<exists>ps ss. c # cs = ps @ t @ ss"
    then obtain ps ss where e: "c # cs = ps @ t @ ss" by blast
    show "includes_str (c # cs) t"
    proof (cases ps)
      case Nil
      with e have "\<exists>ss. c # cs = t @ ss" by auto
      with pre show ?thesis by simp
    next
      case (Cons p ps')
      with e have "cs = ps' @ t @ ss" by simp
      with Cons.IH have "includes_str cs t" by blast
      then show ?thesis by simp
    qed
  qed
qed

lemma title_matches_string:
  "has_string_title e \<Longrightarrow>
   title_matches h text e = Inr (includes_str (normalized h (entry_title e)) text)"
  by (auto simp: has_string_title_def title_matches_def entry_title_def the_prop_def
      normalized_def split: sum.splits jsval.splits)

lemma filter_arr_total:
  "\<forall>x\<in>set xs. f x = Inr (p x) \<Longrightarrow> filter_arr f xs = Inr (filter p xs)"
  by (induction xs) simp_all

lemma make_li_string_title: "has_string_title e \<Longrightarrow> make_li e = Inr (entry_li e)"
  by (cases e) (auto simp: has_string_title_def make_li_def entry_li_def the_prop_def bindE_def)

lemma append_items_all:
  "\<forall>e\<in>set es. has_string_title e \<Longrightarrow> append_items es ul = (None, ul @ map entry_li es)"
  by (induction es arbitrary: ul) (simp_all add: make_li_string_title)

lemma makeProductsList_entries:
  assumes "\<forall>e\<in>set es. has_string_title e"
  shows "makeProductsList p (Arr es) =
           (case productsList p of
              None \<Rightarrow> (if es = [] then None else Some TypeError, p)
            | Some ul \<Rightarrow> (None, set_productsList p (ul @ map entry_li es)))"
  using assms by (simp add: makeProductsList_def append_items_all split: option.splits)

lemma includes_str_empty: "includes_str s []"
  by (induction s) simp_all

lemma filterProductsList_selects:
  assumes "acList (config (block p)) = Arr es" and "\<forall>e\<in>set es. has_string_title e"
  shows "filterProductsList h p ft =
           makeProductsList p
             (Arr (filter (\<lambda>e. includes_str (normalized h (entry_title e)) (normalized h ft)) es))"
proof (cases "normalized h ft = []")
  case True
  then show ?thesis
    by (simp add: filterProductsList_def normalized_def [symmetric] assms(1) includes_str_empty)
next
  case False
  have "filter_arr (title_matches h (normalized h ft)) es =
          Inr (filter (\<lambda>e. includes_str (normalized h (entry_title e)) (normalized h ft)) es)"
    by (rule filter_arr_total) (simp add: title_matches_string assms(2))
  with False show ?thesis
    by (simp add: filterProductsList_def normalized_def [symmetric] assms(1))
qed

text \<open>
  States in which the lookup does not find this block's list. A widget rendered from
  saved data with metadata shows the preview and never attaches its input holder: alone
  on its page, \<^verbatim>\<open>filterProductsList\<close> throws there and changes nothing. And with the holder
  of another block earlier in the document, the items go to that block's list.
\<close>

lemma render_saved_detached:
  "constructor sample_saved sample_config = Inr (sample_new\<lparr>private_data :=
      \<lparr>link = Str (js ''http://a''), meta = Obj [(js ''title'', Str (js ''T''))]\<rparr>\<rparr>) \<and>
   fst (render sample_host (sample_new\<lparr>private_data :=
      \<lparr>link = Str (js ''http://a''), meta = Obj [(js ''title'', Str (js ''T''))]\<rparr>\<rparr>)) = None \<and>
   view (snd (render sample_host (sample_new\<lparr>private_data :=
      \<lparr>link = Str (js ''http://a''), meta = Obj [(js ''title'', Str (js ''T''))]\<rparr>\<rparr>))) =
     Some (sample_view\<lparr>inputHolderAttached := False, linkContentAttached := True,
                       titleText := Some (Str (js ''T'')),
                       anchorHref := Some (Str (js ''http://a''))\<rparr>)"
  by (simp add: constructor_def sample_config_def sample_saved_def sample_new_def bindE_def
      set_data_def or_else_def js_def catalogEntry_def render_def makeInputHolder_def
      sample_view_def get_data_def make_li_def showLinkPreview_def the_prop_def Let_def
      check_host_def sample_host_def)

lemma filterProductsList_detached:
  "filterProductsList sample_host
     \<lparr>block = sample_widget\<lparr>view := Some (sample_view\<lparr>inputHolderAttached := False\<rparr>)\<rparr>,
      inserted = True, lists_before = [], filters_before = [], lists_after = [],
      filters_after = []\<rparr> [] =
   (Some TypeError,
     \<lparr>block = sample_widget\<lparr>view := Some (sample_view\<lparr>inputHolderAttached := False\<rparr>)\<rparr>,
      inserted = True, lists_before = [], filters_before = [], lists_after = [],
      filters_after = []\<rparr>)"
  by (simp add: filterProductsList_def makeProductsList_def productsList_def own_holder_def
      sample_widget_def sample_new_def sample_view_def sample_host_def
      replaceFullWidthCharactersWithHalfWidth_def)

lemma filterProductsList_other_block:
  "filterProductsList sample_host (sample_page\<lparr>lists_before := [[]]\<rparr>) (js ''walk'') =
   (None, sample_page\<lparr>lists_before :=
      [[\<lparr>li_value = Str (js ''http://b''), li_text = Str (js ''Kyoto Walk'')\<rparr>]]\<rparr>)"
  by (simp add: filterProductsList_def makeProductsList_def productsList_def set_productsList_def
      sample_page_def sample_widget_def sample_new_def sample_host_def lower_unit_def
      replaceFullWidthCharactersWithHalfWidth_def fullWidthClass_def title_matches_def
      catalogEntry_def js_def make_li_def bindE_def)

text \<open>
  Claim C1. For a catalog that is an array of entries with string titles,
  \<^verbatim>\<open>filterProductsList\<close> hands to \<^verbatim>\<open>makeProductsList\<close>, in the catalog's order, exactly
  those entries whose title, lower-cased and with its full-width characters replaced,
  contains the filter text, lower-cased and replaced likewise, as a substring; for the
  empty filter text (which lower-cases to the empty string) it hands over the whole
  catalog. \<^verbatim>\<open>makeProductsList\<close> appends one item for each entry handed over, in order, to
  the list that the document lookup finds, and returns normally; when the lookup finds no
  list it throws a \<^verbatim>\<open>TypeError\<close> unless no entry was selected, and changes nothing. When
  this block's input holder is in the document and no other block's holder precedes it,
  the list found is the block's own.
\<close>

theorem filterProductsList_spec:
  assumes "acList (config (block p)) = Arr es" and "\<forall>e\<in>set es. has_string_title e"
    and "selected =
           filter (\<lambda>e. \<exists>ps ss. normalized h (entry_title e) = ps @ normalized h filterText @ ss) es"
  shows "filterProductsList h p filterText = makeProductsList p (Arr selected) \<and>
         makeProductsList p (Arr selected) =
           (case productsList p of
              None \<Rightarrow> (if selected = [] then None else Some TypeError, p)
            | Some ul \<Rightarrow> (None, set_productsList p (ul @ map entry_li selected))) \<and>
         (toLowerCase h [] = [] \<longrightarrow> filterProductsList h p [] = makeProductsList p (Arr es)) \<and>
         (lists_before p = [] \<longrightarrow> own_holder p = Some v \<longrightarrow>
            filterProductsList h p filterText =
              (None, p\<lparr>block := (block p)\<lparr>view :=
                 Some (v\<lparr>options := options v @ map entry_li selected\<rparr>)\<rparr>\<rparr>))"
proof -
  have sel: "selected =
      filter (\<lambda>e. includes_str (normalized h (entry_title e)) (normalized h filterText)) es"
    by (simp add: assms(3) includes_str_iff)
  have sub: "\<forall>e\<in>set selected. has_string_title e"
    using assms(2) by (simp add: sel)
  have a: "filterProductsList h p filterText = makeProductsList p (Arr selected)"
    unfolding sel by (rule filterProductsList_selects [OF assms(1) assms(2)])
  have b: "makeProductsList p (Arr selected) =
           (case productsList p of
              None \<Rightarrow> (if selected = [] then None else Some TypeError, p)
            | Some ul \<Rightarrow> (None, set_productsList p (ul @ map entry_li selected)))"
    by (rule makeProductsList_entries [OF sub])
  have c: "filterProductsList h p [] = makeProductsList p (Arr es)" if "toLowerCase h [] = []"
  proof -
    have "normalized h [] = []"
      using that by (simp add: normalized_def replaceFullWidthCharactersWithHalfWidth_def)
    then show ?thesis
      using filterProductsList_selects [OF assms(1) assms(2), of h "[]"]
      by (simp add: includes_str_empty)
  qed
  have d: "filterProductsList h p filterText =
              (None, p\<lparr>block := (block p)\<lparr>view :=
                 Some (v\<lparr>options := options v @ map entry_li selected\<rparr>)\<rparr>\<rparr>)"
    if "lists_before p = []" and "own_holder p = Some v"
    using that a b by (simp add: productsList_def set_productsList_def)
  from a b c d show ?thesis by blast
qed

theorem filterProductsList_spec_witness:
  "acList (config (block sample_page)) =
     Arr [catalogEntry (js ''http://a'') (js ''Tokyo Tour''),
          catalogEntry (js ''http://b'') (js ''Kyoto Walk'')] \<and>
   has_string_title (catalogEntry (js ''http://a'') (js ''Tokyo Tour'')) \<and>
   has_string_title (catalogEntry (js ''http://b'') (js ''Kyoto Walk'')) \<and>
   toLowerCase sample_host [] = [] \<and>
   lists_before sample_page = [] \<and> own_holder sample_page = Some sample_view \<and>
   productsList sample_page = Some (options sample_view) \<and>
   filterProductsList sample_host sample_page [0xff34, 0x4f, 0xff4b] =
     (None, sample_page\<lparr>block := sample_widget\<lparr>view := Some (sample_view\<lparr>options :=
        options sample_view @
        [\<lparr>li_value = Str (js ''http://a''), li_text = Str (js ''Tokyo Tour'')\<rparr>]\<rparr>)\<rparr>\<rparr>) \<and>
   filterProductsList sample_host sample_page [] =
     (None, sample_page\<lparr>block := sample_widget\<lparr>view := Some (sample_view\<lparr>options :=
        options sample_view @
        [\<lparr>li_value = Str (js ''http://a''), li_text = Str (js ''Tokyo Tour'')\<rparr>,
         \<lparr>li_value = Str (js ''http://b''), li_text = Str (js ''Kyoto Walk'')\<rparr>]\<rparr>)\<rparr>\<rparr>)"
proof -
  let ?e1 = "catalogEntry (js ''http://a'') (js ''Tokyo Tour'')"
  let ?e2 = "catalogEntry (js ''http://b'') (js ''Kyoto Walk'')"
  have b: "acList (config (block sample_page)) = Arr [?e1, ?e2]"
    by (simp add: sample_page_def sample_widget_def sample_new_def)
  have c: "\<forall>e\<in>set [?e1, ?e2]. has_string_title e"
    by (simp add: has_string_title_def catalogEntry_def js_def)
  have d: "toLowerCase sample_host [] = []"
    by (simp add: sample_host_def)
  have bb: "lists_before sample_page = []" and blk: "block sample_page = sample_widget"
    by (simp_all add: sample_page_def)
  have oh: "own_holder sample_page = Some sample_view"
    by (simp add: own_holder_def sample_page_def sample_widget_def sample_view_def)
  have pl: "productsList sample_page = Some (options sample_view)"
    by (simp add: productsList_def bb oh)
  have t1: "normalized sample_host (entry_title ?e1) = js ''tokyo tour''"
    by (simp add: normalized_def entry_title_def the_prop_def catalogEntry_def js_def
        sample_host_def lower_unit_def replaceFullWidthCharactersWithHalfWidth_def
        fullWidthClass_def)
  have t2: "normalized sample_host (entry_title ?e2) = js ''kyoto walk''"
    by (simp add: normalized_def entry_title_def the_prop_def catalogEntry_def js_def
        sample_host_def lower_unit_def replaceFullWidthCharactersWithHalfWidth_def
        fullWidthClass_def)
  have t3: "normalized sample_host [0xff34, 0x4f, 0xff4b] = js ''tok''"
    by (simp add: normalized_def js_def sample_host_def lower_unit_def
        replaceFullWidthCharactersWithHalfWidth_def fullWidthClass_def fromCharCode_def
        charCodeAt0_def)
  have t4: "normalized sample_host [] = []"
    by (simp add: normalized_def sample_host_def replaceFullWidthCharactersWithHalfWidth_def)
  have i1: "includes_str (js ''tokyo tour'') (js ''tok'')"
    and i2: "\<not> includes_str (js ''kyoto walk'') (js ''tok'')"
    by (simp_all add: js_def)
  have l: "entry_li ?e1 = \<lparr>li_value = Str (js ''http://a''), li_text = Str (js ''Tokyo Tour'')\<rparr>"
          "entry_li ?e2 = \<lparr>li_value = Str (js ''http://b''), li_text = Str (js ''Kyoto Walk'')\<rparr>"
    by (simp_all add: entry_li_def the_prop_def catalogEntry_def js_def)
  have s1: "filter (\<lambda>e. \<exists>ps ss. normalized sample_host (entry_title e) =
                ps @ normalized sample_host [0xff34, 0x4f, 0xff4b] @ ss) [?e1, ?e2] = [?e1]"
    using i1 i2 by (simp add: includes_str_iff [symmetric] t1 t2 t3)
  have s2: "filter (\<lambda>e. \<exists>ps ss. normalized sample_host (entry_title e) =
                ps @ normalized sample_host [] @ ss) [?e1, ?e2] = [?e1, ?e2]"
    unfolding includes_str_iff [symmetric] by (simp add: t4 includes_str_empty)
  have r1: "filterProductsList sample_host sample_page [0xff34, 0x4f, 0xff4b] =
     (None, sample_page\<lparr>block := sample_widget\<lparr>view := Some (sample_view\<lparr>options :=
        options sample_view @
        [\<lparr>li_value = Str (js ''http://a''), li_text = Str (js ''Tokyo Tour'')\<rparr>]\<rparr>)\<rparr>\<rparr>)"
    using filterProductsList_spec [OF b c s1 [symmetric], of sample_view,
        THEN conjunct2, THEN conjunct2, THEN conjunct2, rule_format, OF bb oh]
    by (simp add: l blk)
  have r2: "filterProductsList sample_host sample_page [] =
     (None, sample_page\<lparr>block := sample_widget\<lparr>view := Some (sample_view\<lparr>options :=
        options sample_view @
        [\<lparr>li_value = Str (js ''http://a''), li_text = Str (js ''Tokyo Tour'')\<rparr>,
         \<lparr>li_value = Str (js ''http://b''), li_text = Str (js ''Kyoto Walk'')\<rparr>]\<rparr>)\<rparr>\<rparr>)"
    using filterProductsList_spec [OF b c s2 [symmetric], of sample_view,
        THEN conjunct2, THEN conjunct2, THEN conjunct2, rule_format, OF bb oh]
    by (simp add: l blk)
  from b c d bb oh pl r1 r2 show ?thesis by simp
qed

subsection \<open>The fetch cycle\<close>

lemma fetchingFailed_rendered:
  "view w = Some v \<Longrightarrow>
   fetchingFailed w msg =
     (None, w\<lparr>notifications := notifications w @ [\<lparr>message = msg, style = ''error''\<rparr>],
              view := Some (v\<lparr>inputHolderClasses :=
                                 insert ''link-tool__input-holder--error'' (inputHolderClasses v),
                               selectAttached := False\<rparr>)\<rparr>)"
  by (simp add: fetchingFailed_def applyErrorStyle_def on_view_def)

lemma fetchingFailed_effect:
  "get_data (snd (fetchingFailed w msg)) = get_data w \<and>
   notifications (snd (fetchingFailed w msg)) =
     notifications w @ [\<lparr>message = msg, style = ''error''\<rparr>]"
  by (simp add: fetchingFailed_def applyErrorStyle_def on_view_def get_data_def
      split: option.splits)

lemma fetchLinkData_request_rendered:
  "view w = Some v \<Longrightarrow>
   fetchLinkData_request w u =
     (None, w\<lparr>view := Some (v\<lparr>progressClasses := insert ''loading'' (progressClasses v)\<rparr>),
              private_data := \<lparr>link = or_else u (link (private_data w)),
                                meta = meta (private_data w)\<rparr>,
              requests := requests w @
                [\<lparr>req_url = endpoint (config w), req_headers = Undefined,
                  req_data = Obj [(js ''url'', u)]\<rparr>]\<rparr>)"
  by (simp add: fetchLinkData_request_def showProgress_def on_view_def andThen_def
      set_data_def or_else_def js_def this_headers_def)

text \<open>
  Claim C2. For a status code of at least 400, \<^verbatim>\<open>onFetch\<close> leaves the stored data as it
  was and calls the notifier exactly once, with the translation of "Couldn't get this link
  data, try the other one" and the style \<^verbatim>\<open>error\<close>. Over a whole \<^verbatim>\<open>fetchLinkData\<close> on a
  rendered widget, the data afterwards is the link set before the request together with
  the meta from before the fetch, and that notification is the only one.
\<close>

theorem onFetch_server_failure:
  assumes "code \<ge> 400"
  shows "get_data (snd (onFetch h w response code)) = get_data w \<and>
         notifications (snd (onFetch h w response code)) =
           notifications w @
             [\<lparr>message = i18n_t h (js ''Couldn't get this link data, try the other one''),
               style = ''error''\<rparr>] \<and>
         (view w \<noteq> None \<longrightarrow>
            fst (fetchLinkData h w u (Resolved response code)) = None \<and>
            get_data (snd (fetchLinkData h w u (Resolved response code))) =
              \<lparr>link = or_else u (link (get_data w)), meta = meta (get_data w)\<rparr> \<and>
            notifications (snd (fetchLinkData h w u (Resolved response code))) =
              notifications w @
                [\<lparr>message = i18n_t h (js ''Couldn't get this link data, try the other one''),
                  style = ''error''\<rparr>])"
proof -
  let ?msg = "i18n_t h (js ''Couldn't get this link data, try the other one'')"
  have on: "onFetch h w' response code =
              andThen (fetchingFailed w' ?msg)
                (\<lambda>w1. (None, w1\<lparr>console := console w1 @ [response]\<rparr>))" for w'
    using assms by (simp add: onFetch_def)
  have a: "get_data (snd (onFetch h w response code)) = get_data w \<and>
           notifications (snd (onFetch h w response code)) =
             notifications w @ [\<lparr>message = ?msg, style = ''error''\<rparr>]"
    using fetchingFailed_effect [of w ?msg]
    by (cases "fetchingFailed w ?msg") (auto simp: on andThen_def get_data_def split: option.splits)
  have b: "fst (fetchLinkData h w u (Resolved response code)) = None \<and>
            get_data (snd (fetchLinkData h w u (Resolved response code))) =
              \<lparr>link = or_else u (link (get_data w)), meta = meta (get_data w)\<rparr> \<and>
            notifications (snd (fetchLinkData h w u (Resolved response code))) =
              notifications w @ [\<lparr>message = ?msg, style = ''error''\<rparr>]"
    if "view w \<noteq> None"
  proof -
    from that obtain v where v: "view w = Some v" by auto
    show ?thesis
      by (simp add: fetchLinkData_def fetchLinkData_request_rendered [OF v] andThen_def
          fetchLinkData_answer_def on fetchingFailed_rendered get_data_def)
  qed
  from a b show ?thesis by blast
qed

theorem onFetch_server_failure_witness:
  "(404::int) \<ge> 400 \<and> view sample_widget \<noteq> None \<and>
   get_data (snd (fetchLinkData sample_host sample_widget (Str (js ''http://b''))
                    (Resolved (Obj [(js ''title'', Str (js ''T''))]) 404))) =
     \<lparr>link = Str (js ''http://b''), meta = Obj []\<rparr> \<and>
   notifications (snd (fetchLinkData sample_host sample_widget (Str (js ''http://b''))
                    (Resolved (Obj [(js ''title'', Str (js ''T''))]) 404))) =
     [\<lparr>message = js ''Couldn't get this link data, try the other one'', style = ''error''\<rparr>]"
proof -
  have c: "(404::int) \<ge> 400" by simp
  have v: "view sample_widget \<noteq> None" by (simp add: sample_widget_def)
  have d: "get_data sample_widget = \<lparr>link = Str (js ''http://a''), meta = Obj []\<rparr>"
    and n: "notifications sample_widget = []"
    by (simp_all add: get_data_def sample_widget_def sample_new_def)
  have o: "or_else (Str (js ''http://b'')) (Str (js ''http://a'')) = Str (js ''http://b'')"
    by (simp add: or_else_def js_def)
  show ?thesis
    using onFetch_server_failure [OF c, of sample_host sample_widget
        "Obj [(js ''title'', Str (js ''T''))]" "Str (js ''http://b'')"] v
    by (simp add: d n o sample_host_def)
qed


text \<open>
  Claim C8, as stated, fails for an empty URL: a fetch started with the URL \<^verbatim>\<open>''\<close> on
  the sample widget, whose stored link is \<^verbatim>\<open>'http://a'\<close>, reaches the request with the
  stored link still \<^verbatim>\<open>'http://a'\<close>.
\<close>

theorem fetchLinkData_empty_url_counterexample:
  "fst (fetchLinkData_request sample_widget (Str [])) = None \<and>
   link (get_data (snd (fetchLinkData_request sample_widget (Str [])))) = Str (js ''http://a'') \<and>
   link (get_data (snd (fetchLinkData_request sample_widget (Str [])))) \<noteq> Str []"
  unfolding fetchLinkData_request_rendered [OF sample_widget_view]
  by (simp add: sample_widget_def sample_new_def get_data_def or_else_def js_def)

text \<open>
  Claim C8, amended. On a rendered widget, \<^verbatim>\<open>fetchLinkData\<close> reaches the request without
  an exception; at that moment the stored link is the selected URL when that URL is
  truthy (a non-empty string) and the link stored before otherwise, the stored meta is
  the one from before the fetch, and the request just issued carries the URL as its
  \<^verbatim>\<open>url\<close> parameter. The rest of the fetch runs from that state.
\<close>

theorem fetchLinkData_sets_link:
  assumes "view w \<noteq> None"
  shows "\<exists>w'. fetchLinkData_request w u = (None, w') \<and>
           link (get_data w') = (if truthy u then u else link (get_data w)) \<and>
           meta (get_data w') = meta (get_data w) \<and>
           map req_data (requests w') = map req_data (requests w) @ [Obj [(js ''url'', u)]] \<and>
           fetchLinkData h w u r = fetchLinkData_answer h w' r"
proof -
  from assms obtain v where v: "view w = Some v" by auto
  show ?thesis
    by (simp add: fetchLinkData_def fetchLinkData_request_rendered [OF v] andThen_def
        get_data_def or_else_def)
qed

theorem fetchLinkData_sets_link_witness:
  "view sample_widget \<noteq> None \<and> truthy (Str (js ''http://b'')) \<and>
   fst (fetchLinkData_request sample_widget (Str (js ''http://b''))) = None \<and>
   link (get_data (snd (fetchLinkData_request sample_widget (Str (js ''http://b''))))) =
     Str (js ''http://b'') \<and>
   meta (get_data (snd (fetchLinkData_request sample_widget (Str (js ''http://b''))))) = Obj []"
proof -
  have v: "view sample_widget \<noteq> None" by (simp add: sample_widget_def)
  have t: "truthy (Str (js ''http://b''))" by (simp add: js_def)
  have m: "meta (get_data sample_widget) = Obj []"
    by (simp add: get_data_def sample_widget_def sample_new_def)
  show ?thesis
    using fetchLinkData_sets_link
      [OF v, where u = "Str (js ''http://b'')" and h = sample_host and r = Rejected] v t m
    by auto
qed

text \<open>
  Claim C4, at a configuration with headers. The sample widget was constructed with
  \<^verbatim>\<open>config.headers = { 'X-Token': 'abc' }\<close>, and \<^verbatim>\<open>this.config.headers\<close> holds them. The
  one request of a fetch goes to \<^verbatim>\<open>config.endpoint\<close> with the selected URL as its \<^verbatim>\<open>url\<close>
  parameter, but its \<^verbatim>\<open>headers\<close> are \<^verbatim>\<open>undefined\<close>: the request reads \<^verbatim>\<open>this.headers\<close>,
  not \<^verbatim>\<open>this.config.headers\<close>.
\<close>

theorem fetchLinkData_request_headers:
  "headers (config sample_widget) = Obj [(js ''X-Token'', Str (js ''abc''))] \<and>
   requests (snd (fetchLinkData_request sample_widget (Str (js ''http://b'')))) =
     [\<lparr>req_url = Str (js ''/fetch''), req_headers = Undefined,
       req_data = Obj [(js ''url'', Str (js ''http://b''))]\<rparr>]"
  unfolding fetchLinkData_request_rendered [OF sample_widget_view]
  by (simp add: sample_widget_def sample_new_def)

text \<open>
  What \<^verbatim>\<open>onFetch\<close> does with a falsy body that is neither \<^verbatim>\<open>null\<close> nor \<^verbatim>\<open>undefined\<close>
  (\<^verbatim>\<open>''\<close>, \<^verbatim>\<open>0\<close>, \<^verbatim>\<open>false\<close>) and a status code below 400: it reports the wrong response
  format, keeps the stored meta and shows no preview. The stored link becomes
  \<^verbatim>\<open>response.link\<close> when that is truthy, which it is for the body \<^verbatim>\<open>''\<close>.
\<close>

lemma onFetch_falsy_body:
  assumes "code < 400" and "\<not> truthy body" and "body \<noteq> Undefined" and "body \<noteq> Null"
    and "view w = Some v"
  shows "onFetch h w body code =
           (None, w\<lparr>private_data := \<lparr>link = or_else (the_prop body ''link'') (link (private_data w)),
                                     meta = meta (private_data w)\<rparr>,
                    notifications := notifications w @
                      [\<lparr>message = i18n_t h (js ''Wrong response format from the server''),
                        style = ''error''\<rparr>],
                    view := Some (v\<lparr>inputHolderClasses :=
                                      insert ''link-tool__input-holder--error'' (inputHolderClasses v),
                                    selectAttached := False\<rparr>)\<rparr>)"
  using assms
  by (cases body)
    (simp_all add: onFetch_def set_data_def andThen_def get_data_def the_prop_def js_def
      or_else_def fetchingFailed_rendered)

text \<open>
  Claim C3, at the body \<^verbatim>\<open>null\<close> with status 200. \<^verbatim>\<open>onFetch\<close> throws a \<^verbatim>\<open>TypeError\<close> at
  \<^verbatim>\<open>response.link\<close>, before it tests \<^verbatim>\<open>!metaData\<close>; the handler in \<^verbatim>\<open>fetchLinkData\<close>
  catches it, and the one notification of the fetch is "Couldn't fetch the link data",
  not "Wrong response format from the server".
\<close>

theorem fetchLinkData_null_body:
  "onFetch sample_host sample_widget Null 200 = (Some TypeError, sample_widget) \<and>
   fst (fetchLinkData sample_host sample_widget (Str (js ''http://b'')) (Resolved Null 200)) = None \<and>
   notifications
     (snd (fetchLinkData sample_host sample_widget (Str (js ''http://b'')) (Resolved Null 200))) =
     [\<lparr>message = js ''Couldn't fetch the link data'', style = ''error''\<rparr>]"
  unfolding fetchLinkData_def fetchLinkData_request_rendered [OF sample_widget_view]
  by (simp add: andThen_def fetchLinkData_answer_def onFetch_def fetchingFailed_rendered
      sample_widget_def sample_new_def sample_host_def)

subsection \<open>Construction\<close>

text \<open>
  Claim C7, at a configuration that sets no option. The constructor returns a widget
  whose \<^verbatim>\<open>endpoint\<close> and \<^verbatim>\<open>language\<close> are the empty string and whose \<^verbatim>\<open>headers\<close> are an
  empty object, but whose \<^verbatim>\<open>acList\<close> and \<^verbatim>\<open>placeholder\<close> are empty objects too, not an
  empty array and an empty string; \<^verbatim>\<open>render()\<close> on that widget throws a \<^verbatim>\<open>TypeError\<close>,
  at \<^verbatim>\<open>this.config.acList.map\<close>.
\<close>

theorem constructor_defaults:
  "constructor (Obj []) (Obj []) =
     Inr \<lparr>config = \<lparr>endpoint = Str [], headers = Obj [], acList = Obj [],
                    placeholder = Obj [], language = Str []\<rparr>,
          private_data = \<lparr>link = Str [], meta = Obj []\<rparr>,
          url = Str [], view = None, notifications = [], requests = [], console = [],
          unhandled = []\<rparr> \<and>
   Obj [] \<noteq> Arr [] \<and> Obj [] \<noteq> Str [] \<and>
   fst (render sample_host
          \<lparr>config = \<lparr>endpoint = Str [], headers = Obj [], acList = Obj [],
                     placeholder = Obj [], language = Str []\<rparr>,
           private_data = \<lparr>link = Str [], meta = Obj []\<rparr>,
           url = Str [], view = None, notifications = [], requests = [], console = [],
           unhandled = []\<rparr>) = Some TypeError"
  by (simp add: constructor_def bindE_def set_data_def or_else_def js_def render_def
      makeInputHolder_def)

subsection \<open>The price line\<close>

lemma replace_str_single: "replace_str [y] [] s = remove1 y s"
  by (induction s) auto

lemma price_text_string:
  "price_text h lang (Str p) =
     Inr (Str (if lang = Str (js ''ja-JP'') \<or> yen \<notin> set p then p
               else js ''JPY '' @ remove1 yen p))"
  by (simp add: price_text_def replace_str_single)

lemma check_host_view: "view (snd (check_host h w)) = view w"
  by (simp add: check_host_def split: option.splits)

lemma showLinkPreview_price:
  assumes v: "view w = Some v" and p: "getProp m ''lowest_price_gross'' = Inr (Str p)"
    and ne: "p \<noteq> []"
  shows "rendered_price (showLinkPreview h w m) =
           Some (Str (if language (config w) = Str (js ''ja-JP'') \<or> yen \<notin> set p then p
                      else js ''JPY '' @ remove1 yen p))"
proof -
  from p obtain img where img: "getProp m ''image'' = Inr img"
    by (cases m) auto
  from p have pr: "the_prop m ''lowest_price_gross'' = Str p"
    by (simp add: the_prop_def)
  show ?thesis
    by (simp add: showLinkPreview_def v img pr ne Let_def price_text_string rendered_price_def
        check_host_view)
qed

lemma showLinkPreview_no_price:
  assumes v: "view w = Some v" and p: "getProp m ''lowest_price_gross'' = Inr (Str [])"
  shows "rendered_price (showLinkPreview h w m) = infoPriceText v"
proof -
  from p obtain img where img: "getProp m ''image'' = Inr img"
    by (cases m) auto
  from p have pr: "the_prop m ''lowest_price_gross'' = Str []"
    by (simp add: the_prop_def)
  show ?thesis
    by (simp add: showLinkPreview_def v img pr Let_def rendered_price_def check_host_view)
qed

lemma remove1_single_occurrence:
  "count_list s y = 1 \<Longrightarrow> remove1 y s = filter (\<lambda>c. c \<noteq> y) s"
proof (induction s)
  case Nil
  then show ?case by simp
next
  case (Cons c cs)
  show ?case
  proof (cases "c = y")
    case True
    with Cons.prems have "count_list cs y = 0" by simp
    then have "y \<notin> set cs" by (simp add: count_list_0_iff)
    then have "filter (\<lambda>c. c \<noteq> y) cs = cs" by (induction cs) auto
    with True show ?thesis by simp
  next
    case False
    with Cons show ?thesis by simp
  qed
qed

text \<open>
  Claim C6, as stated, fails in two places. Under \<^verbatim>\<open>en-US\<close>, the price \<^verbatim>\<open>'1\<yen>2\<yen>'\<close>
  (writing \<^verbatim>\<open>\<yen>\<close> for the glyph U+5186) is shown as \<^verbatim>\<open>'JPY 12\<yen>'\<close>, a text that still
  holds a glyph, not as \<^verbatim>\<open>'JPY 12'\<close>: \<^verbatim>\<open>replace\<close> with a string pattern removes the first
  occurrence only. And for the price \<^verbatim>\<open>''\<close>, a string with no glyph, no price line is made
  at all.
\<close>

theorem price_text_counterexample:
  "rendered_price (showLinkPreview sample_host sample_widget
      (Obj [(js ''lowest_price_gross'', Str [0x31, yen, 0x32, yen])])) =
     Some (Str (js ''JPY 12'' @ [yen])) \<and>
   Some (Str (js ''JPY 12'' @ [yen])) \<noteq> Some (Str (js ''JPY 12'')) \<and>
   rendered_price (showLinkPreview sample_host sample_widget
      (Obj [(js ''lowest_price_gross'', Str [])])) = None \<and>
   None \<noteq> Some (Str [])"
proof -
  have l: "language (config sample_widget) = Str (js ''en-US'')"
    by (simp add: sample_widget_def sample_new_def)
  have a: "rendered_price (showLinkPreview sample_host sample_widget
      (Obj [(js ''lowest_price_gross'', Str [0x31, yen, 0x32, yen])])) =
     Some (Str (js ''JPY 12'' @ [yen]))"
    by (simp add: showLinkPreview_price [OF sample_widget_view, of _ "[0x31, yen, 0x32, yen]"]
        l js_def yen_def)
  have b: "rendered_price (showLinkPreview sample_host sample_widget
      (Obj [(js ''lowest_price_gross'', Str [])])) = None"
    by (simp add: showLinkPreview_def sample_widget_view the_prop_def js_def Let_def
        rendered_price_def check_host_view sample_view_def)
  have c: "Some (Str (js ''JPY 12'' @ [yen])) \<noteq> Some (Str (js ''JPY 12''))"
    by simp
  from a b c show ?thesis by blast
qed

text \<open>
  Claim C6, amended. On a rendered widget, for metadata whose \<^verbatim>\<open>lowest_price_gross\<close> is a
  non-empty string, the text of the price line is that string verbatim when
  \<^verbatim>\<open>config.language\<close> is \<^verbatim>\<open>'ja-JP'\<close> or the string holds no yen glyph, and otherwise
  \<^verbatim>\<open>'JPY '\<close> followed by the string with the first occurrence of the glyph removed; for a
  string with a single glyph that is the string with no glyph left. For the empty string
  no price line is made: the price node is what it was before the call, and there is none
  on a widget that has not shown a price.
\<close>

theorem price_text_spec:
  assumes "view w \<noteq> None" and "getProp m ''lowest_price_gross'' = Inr (Str p)"
  shows "(p \<noteq> [] \<longrightarrow>
            rendered_price (showLinkPreview h w m) =
              Some (Str (if language (config w) = Str (js ''ja-JP'') \<or> yen \<notin> set p then p
                         else js ''JPY '' @ remove1 yen p))) \<and>
         (count_list p yen = 1 \<longrightarrow> remove1 yen p = filter (\<lambda>c. c \<noteq> yen) p) \<and>
         (p = [] \<longrightarrow>
            rendered_price (showLinkPreview h w m) = rendered_price (None, w) \<and>
            (rendered_price (None, w) = None \<longrightarrow> rendered_price (showLinkPreview h w m) = None))"
proof -
  from assms(1) obtain v where v: "view w = Some v" by auto
  have a: "rendered_price (showLinkPreview h w m) =
              Some (Str (if language (config w) = Str (js ''ja-JP'') \<or> yen \<notin> set p then p
                         else js ''JPY '' @ remove1 yen p))" if "p \<noteq> []"
    using showLinkPreview_price [OF v assms(2) that] .
  have b: "rendered_price (showLinkPreview h w m) = rendered_price (None, w)" if "p = []"
    using showLinkPreview_no_price [OF v, of m h] assms(2) that
    by (simp add: rendered_price_def v)
  from a b remove1_single_occurrence [of p yen] show ?thesis by auto
qed

theorem price_text_spec_witness:
  "view sample_widget \<noteq> None \<and>
   getProp (Obj [(js ''lowest_price_gross'', Str (js ''500'' @ [yen]))]) ''lowest_price_gross'' =
     Inr (Str (js ''500'' @ [yen])) \<and>
   js ''500'' @ [yen] \<noteq> [] \<and>
   count_list (js ''500'' @ [yen]) yen = 1 \<and>
   rendered_price (showLinkPreview sample_host sample_widget
      (Obj [(js ''lowest_price_gross'', Str (js ''500'' @ [yen]))])) = Some (Str (js ''JPY 500'')) \<and>
   rendered_price (showLinkPreview sample_host
      (sample_widget\<lparr>config := (config sample_widget)\<lparr>language := Str (js ''ja-JP'')\<rparr>\<rparr>)
      (Obj [(js ''lowest_price_gross'', Str (js ''500'' @ [yen]))])) = Some (Str (js ''500'' @ [yen])) \<and>
   getProp (Obj [(js ''lowest_price_gross'', Str [])]) ''lowest_price_gross'' = Inr (Str []) \<and>
   rendered_price (None, sample_widget) = None \<and>
   rendered_price (showLinkPreview sample_host sample_widget
      (Obj [(js ''lowest_price_gross'', Str [])])) = None"
proof -
  let ?m = "Obj [(js ''lowest_price_gross'', Str (js ''500'' @ [yen]))]"
  let ?w = "sample_widget\<lparr>config := (config sample_widget)\<lparr>language := Str (js ''ja-JP'')\<rparr>\<rparr>"
  have v: "view sample_widget \<noteq> None" and v': "view ?w \<noteq> None"
    by (simp_all add: sample_widget_def)
  have g: "getProp ?m ''lowest_price_gross'' = Inr (Str (js ''500'' @ [yen]))"
    by (simp add: js_def)
  have g0: "getProp (Obj [(js ''lowest_price_gross'', Str [])]) ''lowest_price_gross'' =
              Inr (Str [])"
    by (simp add: js_def)
  have n: "js ''500'' @ [yen] \<noteq> []" by simp
  have l: "language (config sample_widget) = Str (js ''en-US'')"
    by (simp add: sample_widget_def sample_new_def)
  have d: "Str (js ''en-US'') \<noteq> Str (js ''ja-JP'')" by (simp add: js_def)
  have r0: "rendered_price (None, sample_widget) = None"
    by (simp add: rendered_price_def sample_widget_def sample_view_def)
  have e: "rendered_price (showLinkPreview sample_host sample_widget
      (Obj [(js ''lowest_price_gross'', Str [])])) = None"
    using price_text_spec [OF v g0, of sample_host] r0 by simp
  have c: "count_list (js ''500'' @ [yen]) yen = 1"
    by (simp add: js_def yen_def)
  from price_text_spec [OF v g, of sample_host] price_text_spec [OF v' g, of sample_host]
    v g n g0 r0 e c
  show ?thesis
    by (simp add: l d js_def yen_def)
qed

end
